theory Spec2Isabelle
  imports Complex_Main
begin

section \<open>JavaScript values and coercions used by the filter evaluator\<close>

text \<open>
  The evaluator of \<^verbatim>\<open>src/src/App.tsx\<close> reads a field of a row (typed \<^verbatim>\<open>any\<close>) and
  coerces it with \<^verbatim>\<open>String(...)\<close> and \<^verbatim>\<open>Number(...)\<close>. The values of the model are
  the scalars a row holds: \<^verbatim>\<open>undefined\<close> (a missing field), \<^verbatim>\<open>null\<close>, booleans,
  strings, and numbers. A number stored in a row is an integer (as \<^verbatim>\<open>age: 31\<close> in the
  rows of the demo) or \<^verbatim>\<open>NaN\<close> (what \<^verbatim>\<open>getTime()\<close> gives for an invalid date); doubles
  with a fractional part and integers beyond \<open>2^53\<close> are outside the model. A string is the
  list of its code units, each below 256.
\<close>

datatype jsval =
    JUndefined
  | JNull
  | JBool bool
  | JNaN
  | JNum int
  | JStr string

text \<open>
  The result of \<^verbatim>\<open>Number(...)\<close>. The mathematical value of a numeric literal is kept
  exact: its rounding to the nearest double, and with it the overflow of a large literal to
  \<^verbatim>\<open>Infinity\<close>, is not modelled.
\<close>

datatype jsnum = NaN | NegInf | Fin rat | PosInf

subsection \<open>Strings\<close>

definition lower_char :: "char \<Rightarrow> char" where
  "lower_char c =
     (let n = (of_char c :: nat)
      in if (65 \<le> n \<and> n \<le> 90) \<or> (192 \<le> n \<and> n \<le> 222 \<and> n \<noteq> 215)
         then char_of (n + 32) else c)"

definition toLowerCase :: "string \<Rightarrow> string" where
  "toLowerCase s = map lower_char s"

fun startsWith :: "string \<Rightarrow> string \<Rightarrow> bool" where
  "startsWith s [] = True"
| "startsWith [] (c # t) = False"
| "startsWith (a # s) (c # t) = (a = c \<and> startsWith s t)"

fun includes_str :: "string \<Rightarrow> string \<Rightarrow> bool" where
  "includes_str [] t = (t = [])"
| "includes_str (a # s) t = (startsWith (a # s) t \<or> includes_str s t)"

definition is_ws :: "char \<Rightarrow> bool" where
  "is_ws c = ((of_char c :: nat) \<in> {9, 10, 11, 12, 13, 32, 160})"

definition trim :: "string \<Rightarrow> string" where
  "trim s = rev (dropWhile is_ws (rev (dropWhile is_ws s)))"

definition is_digit :: "char \<Rightarrow> bool" where
  "is_digit c = (48 \<le> (of_char c :: nat) \<and> (of_char c :: nat) \<le> 57)"

subsection \<open>\<^verbatim>\<open>String(value)\<close>\<close>

definition digit_char :: "nat \<Rightarrow> char" where
  "digit_char d = char_of (48 + d)"

fun nat_digits :: "nat \<Rightarrow> string" where
  "nat_digits n = (if n < 10 then [digit_char n] else nat_digits (n div 10) @ [digit_char (n mod 10)])"

declare nat_digits.simps [simp del]

definition int_string :: "int \<Rightarrow> string" where
  "int_string i = (if i < 0 then CHR ''-'' # nat_digits (nat (- i)) else nat_digits (nat i))"

fun ToString :: "jsval \<Rightarrow> string" where
  "ToString JUndefined = ''undefined''"
| "ToString JNull = ''null''"
| "ToString (JBool b) = (if b then ''true'' else ''false'')"
| "ToString JNaN = ''NaN''"
| "ToString (JNum i) = int_string i"
| "ToString (JStr s) = s"

subsection \<open>\<^verbatim>\<open>Number(value)\<close>\<close>

definition digit_val :: "char \<Rightarrow> nat option" where
  "digit_val c =
     (let n = (of_char c :: nat)
      in if 48 \<le> n \<and> n \<le> 57 then Some (n - 48)
         else if 97 \<le> n \<and> n \<le> 102 then Some (n - 87)
         else if 65 \<le> n \<and> n \<le> 70 then Some (n - 55)
         else None)"

fun radix_digits :: "nat \<Rightarrow> nat \<Rightarrow> string \<Rightarrow> nat option" where
  "radix_digits b acc [] = Some acc"
| "radix_digits b acc (c # cs) =
     (case digit_val c of
        None \<Rightarrow> None
      | Some d \<Rightarrow> if d < b then radix_digits b (acc * b + d) cs else None)"

definition radix_value :: "nat \<Rightarrow> string \<Rightarrow> nat option" where
  "radix_value b s = (if s = [] then None else radix_digits b 0 s)"

definition exponent_part :: "string \<Rightarrow> int option" where
  "exponent_part s =
     (case s of
        [] \<Rightarrow> Some 0
      | c # t \<Rightarrow>
          if c = CHR ''e'' \<or> c = CHR ''E'' then
            (case t of
               [] \<Rightarrow> None
             | g # u \<Rightarrow>
                 if g = CHR ''+'' then map_option int (radix_value 10 u)
                 else if g = CHR ''-'' then map_option (\<lambda>n. - int n) (radix_value 10 u)
                 else map_option int (radix_value 10 t))
          else None)"

definition pow10 :: "int \<Rightarrow> rat" where
  "pow10 e = (if 0 \<le> e then 10 ^ nat e else 1 / 10 ^ nat (- e))"

definition digits_or_zero :: "string \<Rightarrow> nat" where
  "digits_or_zero s = (case radix_value 10 s of None \<Rightarrow> 0 | Some n \<Rightarrow> n)"

definition unsigned_decimal :: "string \<Rightarrow> jsnum" where
  "unsigned_decimal s =
     (if s = ''Infinity'' then PosInf
      else
        let ip = takeWhile is_digit s;
            r1 = dropWhile is_digit s;
            fp = (case r1 of [] \<Rightarrow> [] | c # t \<Rightarrow> if c = CHR ''.'' then takeWhile is_digit t else []);
            r2 = (case r1 of [] \<Rightarrow> [] | c # t \<Rightarrow> if c = CHR ''.'' then dropWhile is_digit t else r1)
        in if ip = [] \<and> fp = [] then NaN
           else (case exponent_part r2 of
                   None \<Rightarrow> NaN
                 | Some e \<Rightarrow>
                     Fin ((of_nat (digits_or_zero ip)
                           + of_nat (digits_or_zero fp) / 10 ^ length fp) * pow10 e)))"

fun negate :: "jsnum \<Rightarrow> jsnum" where
  "negate NaN = NaN"
| "negate NegInf = PosInf"
| "negate PosInf = NegInf"
| "negate (Fin q) = Fin (- q)"

definition radix_literal :: "nat \<Rightarrow> string \<Rightarrow> jsnum" where
  "radix_literal b s = (case radix_value b s of None \<Rightarrow> NaN | Some n \<Rightarrow> Fin (of_nat n))"

definition StringToNumber :: "string \<Rightarrow> jsnum" where
  "StringToNumber s =
     (let t = trim s
      in if t = [] then Fin 0
         else if startsWith t ''0x'' \<or> startsWith t ''0X'' then radix_literal 16 (drop 2 t)
         else if startsWith t ''0o'' \<or> startsWith t ''0O'' then radix_literal 8 (drop 2 t)
         else if startsWith t ''0b'' \<or> startsWith t ''0B'' then radix_literal 2 (drop 2 t)
         else if hd t = CHR ''+'' then unsigned_decimal (tl t)
         else if hd t = CHR ''-'' then negate (unsigned_decimal (tl t))
         else unsigned_decimal t)"

fun ToNumber :: "jsval \<Rightarrow> jsnum" where
  "ToNumber JUndefined = NaN"
| "ToNumber JNull = Fin 0"
| "ToNumber (JBool b) = (if b then Fin 1 else Fin 0)"
| "ToNumber JNaN = NaN"
| "ToNumber (JNum i) = Fin (of_int i)"
| "ToNumber (JStr s) = StringToNumber s"

subsection \<open>Relational operators on numbers\<close>

text \<open>
  The abstract comparison \<open>x < y\<close> of the language on two numbers: undefined (\<open>None\<close>)
  when either is \<^verbatim>\<open>NaN\<close>.
\<close>

fun IsLessThan :: "jsnum \<Rightarrow> jsnum \<Rightarrow> bool option" where
  "IsLessThan NaN y = None"
| "IsLessThan x NaN = None"
| "IsLessThan PosInf y = Some False"
| "IsLessThan x NegInf = Some False"
| "IsLessThan NegInf y = Some True"
| "IsLessThan x PosInf = Some True"
| "IsLessThan (Fin a) (Fin b) = Some (a < b)"

definition num_lt :: "jsnum \<Rightarrow> jsnum \<Rightarrow> bool" where
  "num_lt x y = (case IsLessThan x y of None \<Rightarrow> False | Some r \<Rightarrow> r)"

definition num_gt :: "jsnum \<Rightarrow> jsnum \<Rightarrow> bool" where
  "num_gt x y = (case IsLessThan y x of None \<Rightarrow> False | Some r \<Rightarrow> r)"

definition num_le :: "jsnum \<Rightarrow> jsnum \<Rightarrow> bool" where
  "num_le x y = (case IsLessThan y x of None \<Rightarrow> False | Some r \<Rightarrow> \<not> r)"

definition num_ge :: "jsnum \<Rightarrow> jsnum \<Rightarrow> bool" where
  "num_ge x y = (case IsLessThan x y of None \<Rightarrow> False | Some r \<Rightarrow> \<not> r)"

subsection \<open>\<^verbatim>\<open>new Date(value).getTime()\<close>\<close>

text \<open>
  The test \<^verbatim>\<open>/^\d{4}-\d{2}-\d{2}$/\<close>: exactly ten code units, ASCII digits around two
  hyphens.
\<close>

definition date_shape :: "string \<Rightarrow> bool" where
  "date_shape s =
     (case s of
        [y1, y2, y3, y4, h1, m1, m2, h2, d1, d2] \<Rightarrow>
          is_digit y1 \<and> is_digit y2 \<and> is_digit y3 \<and> is_digit y4 \<and> h1 = CHR ''-'' \<and>
          is_digit m1 \<and> is_digit m2 \<and> h2 = CHR ''-'' \<and> is_digit d1 \<and> is_digit d2
      | _ \<Rightarrow> False)"

definition InLeapYear :: "int \<Rightarrow> bool" where
  "InLeapYear y = (y mod 4 = 0 \<and> (y mod 100 \<noteq> 0 \<or> y mod 400 = 0))"

definition DayFromYear :: "int \<Rightarrow> int" where
  "DayFromYear y =
     365 * (y - 1970) + (y - 1969) div 4 - (y - 1901) div 100 + (y - 1601) div 400"

text \<open>Days from the start of the year to the first of month \<open>m\<close> (1 to 12).\<close>

definition month_offset :: "int \<Rightarrow> nat \<Rightarrow> int" where
  "month_offset y m =
     [0, 31, 59, 90, 120, 151, 181, 212, 243, 273, 304, 334] ! (m - 1)
     + (if InLeapYear y \<and> 3 \<le> m then 1 else 0)"

definition DaysInMonth :: "int \<Rightarrow> nat \<Rightarrow> nat" where
  "DaysInMonth y m =
     (if m = 2 then (if InLeapYear y then 29 else 28)
      else if m \<in> {4, 6, 9, 11} then 30 else 31)"

text \<open>
  A string \<^verbatim>\<open>YYYY-MM-DD\<close> that names a day of the calendar is read as midnight UTC of
  that day. What \<^verbatim>\<open>Date.parse\<close> gives for any other string is the engine's own affair
  (one engine carries the 30th of February into March and reads \<^verbatim>\<open>0001-13-01\<close> as a
  month, a day and a year in local time, another gives \<^verbatim>\<open>NaN\<close> for both): it is a
  parameter of the model, a function from the string to the time value, \<open>None\<close> standing
  for \<^verbatim>\<open>NaN\<close>.
\<close>

type_synonym date_parser = "string \<Rightarrow> int option"

definition parse_date :: "date_parser \<Rightarrow> string \<Rightarrow> jsval" where
  "parse_date dp s =
     (let y = int (digits_or_zero (take 4 s));
          m = digits_or_zero (take 2 (drop 5 s));
          d = digits_or_zero (take 2 (drop 8 s))
      in if date_shape s \<and> 1 \<le> m \<and> m \<le> 12 \<and> 1 \<le> d \<and> d \<le> DaysInMonth y m
         then JNum ((DayFromYear y + month_offset y m + int d - 1) * 86400000)
         else (case dp s of None \<Rightarrow> JNaN | Some t \<Rightarrow> JNum t))"

fun getTime :: "date_parser \<Rightarrow> jsval \<Rightarrow> jsval" where
  "getTime dp (JStr s) = parse_date dp s"
| "getTime dp (JNum n) = (if \<bar>n\<bar> \<le> 8640000000000000 then JNum n else JNaN)"
| "getTime dp JNull = JNum 0"
| "getTime dp (JBool b) = JNum (if b then 1 else 0)"
| "getTime dp JUndefined = JNaN"
| "getTime dp JNaN = JNaN"

text \<open>
  A comparison of two time values as integers, false when either is \<^verbatim>\<open>NaN\<close>.
\<close>

definition on_epochs :: "(int \<Rightarrow> int \<Rightarrow> bool) \<Rightarrow> jsval \<Rightarrow> jsval \<Rightarrow> bool" where
  "on_epochs p a b =
     (case a of
        JNum x \<Rightarrow> (case b of JNum y \<Rightarrow> p x y | _ \<Rightarrow> False)
      | _ \<Rightarrow> False)"

section \<open>The filter tree and its evaluator (\<^verbatim>\<open>src/src/App.tsx\<close>)\<close>

datatype combinator = And | Or

datatype AstNode =
    Condition string string string
  | Group combinator "AstNode list"

text \<open>
  A row is the map of its own properties; a key it does not own reads as \<^verbatim>\<open>undefined\<close>
  (the names inherited from \<^verbatim>\<open>Object.prototype\<close> are outside the model).
\<close>

type_synonym row = "string \<rightharpoonup> jsval"

definition get_field :: "row \<Rightarrow> string \<Rightarrow> jsval" where
  "get_field r f = (case r f of None \<Rightarrow> JUndefined | Some v \<Rightarrow> v)"

definition compare :: "string \<Rightarrow> jsval \<Rightarrow> jsval \<Rightarrow> bool" where
  "compare operator left right =
     (if operator = ''contains'' then includes_str (toLowerCase (ToString left)) (toLowerCase (ToString right))
      else if operator = ''='' then ToString left = ToString right
      else if operator = ''!='' then ToString left \<noteq> ToString right
      else if operator = ''>'' then num_gt (ToNumber left) (ToNumber right)
      else if operator = ''>='' then num_ge (ToNumber left) (ToNumber right)
      else if operator = ''<'' then num_lt (ToNumber left) (ToNumber right)
      else if operator = ''<='' then num_le (ToNumber left) (ToNumber right)
      else False)"

text \<open>
  The evaluator and the filter take the engine's date parser \<open>dp\<close> as their first argument.
\<close>

fun evaluate :: "date_parser \<Rightarrow> row \<Rightarrow> AstNode \<Rightarrow> bool" where
  "evaluate dp r (Group c children) =
     (let evals = map (evaluate dp r) children
      in if c = And then list_all (\<lambda>b. b) evals else list_ex (\<lambda>b. b) evals)"
| "evaluate dp r (Condition field operator v) =
     (let value = get_field r field
      in if date_shape (ToString value) \<and> date_shape (ToString (JStr v))
         then compare operator (getTime dp value) (getTime dp (JStr v))
         else compare operator value (JStr v))"

definition applyFilter :: "date_parser \<Rightarrow> row list \<Rightarrow> AstNode option \<Rightarrow> row list" where
  "applyFilter dp rows ast =
     (case ast of
        None \<Rightarrow> rows
      | Some (Group c children) \<Rightarrow> filter (\<lambda>r. list_all (\<lambda>c. evaluate dp r c) children) rows
      | Some (Condition f operator v) \<Rightarrow> rows)"

section \<open>The search bar (\<^verbatim>\<open>src/src/components/SmartSearchBar.tsx\<close>)\<close>

datatype FieldType = FString | FNumber | FDate | FEnum | FBoolean | FRelation

text \<open>
  An option source is a fixed list, or a lookup from a query to a promise of a list: the
  function gives the list the promise resolves to, and when it resolves is an event of
  its own (see \<open>resolve\<close> below).
\<close>

datatype OptionSource = StaticOptions "string list" | AsyncOptions "string \<Rightarrow> string list"

record FieldSchema =
  label :: string
  ftype :: FieldType
  options :: "OptionSource option"

text \<open>A schema is an object literal: its keys in the order they were written.\<close>

type_synonym Schema = "(string \<times> FieldSchema) list"

definition STRING_OPS :: "string list" where
  "STRING_OPS = [''contains'', ''='', ''!='']"

definition NUMBER_OPS :: "string list" where
  "NUMBER_OPS = [''='', ''!='', ''>'', ''>='', ''<'', ''<='']"

definition DATE_OPS :: "string list" where
  "DATE_OPS = NUMBER_OPS"

definition ENUM_OPS :: "string list" where
  "ENUM_OPS = [''='', ''!='']"

definition BOOL_OPS :: "string list" where
  "BOOL_OPS = [''='', ''!='']"

fun getOps :: "FieldType \<Rightarrow> string list" where
  "getOps FString = STRING_OPS"
| "getOps FNumber = NUMBER_OPS"
| "getOps FDate = DATE_OPS"
| "getOps FEnum = ENUM_OPS"
| "getOps FRelation = ENUM_OPS"
| "getOps FBoolean = BOOL_OPS"

subsection \<open>The component's state\<close>

record bar_state =
  input_text :: string
  chips :: "AstNode list"
  activeField :: "string option"
  activeOp :: "string option"
  valueDraft :: string
  menuIndex :: int
  showSuggestions :: bool

text \<open>A \<^verbatim>\<open>string | null\<close> used as a condition: \<^verbatim>\<open>null\<close> and the empty string are falsy.\<close>

definition truthy :: "string option \<Rightarrow> bool" where
  "truthy x = (case x of None \<Rightarrow> False | Some s \<Rightarrow> s \<noteq> [])"

definition fields :: "Schema \<Rightarrow> string list" where
  "fields schema = map fst schema"

definition field_of :: "Schema \<Rightarrow> bar_state \<Rightarrow> FieldSchema option" where
  "field_of schema s =
     (case activeField s of
        None \<Rightarrow> None
      | Some a \<Rightarrow> if a \<noteq> [] then map_of schema a else None)"

definition ops :: "Schema \<Rightarrow> bar_state \<Rightarrow> string list" where
  "ops schema s = (case field_of schema s of None \<Rightarrow> [] | Some fd \<Rightarrow> getOps (ftype fd))"

text \<open>The effect that publishes the tree: the and-group of the chips, or \<^verbatim>\<open>null\<close>.\<close>

definition published :: "bar_state \<Rightarrow> AstNode option" where
  "published s = (if length (chips s) \<noteq> 0 then Some (Group And (chips s)) else None)"

definition resetDraft :: "bar_state \<Rightarrow> bar_state" where
  "resetDraft s = s\<lparr>activeField := None, activeOp := None, valueDraft := [], menuIndex := 0\<rparr>"

definition commitCondition :: "string \<Rightarrow> string \<Rightarrow> string \<Rightarrow> bar_state \<Rightarrow> bar_state" where
  "commitCondition fieldName operator v s =
     (let node = Condition fieldName operator v
      in (resetDraft (s\<lparr>chips := chips s @ [node]\<rparr>))\<lparr>input_text := [], showSuggestions := False\<rparr>)"

text \<open>Suggestions are pairs of an id and a label.\<close>

definition fieldSuggestions :: "Schema \<Rightarrow> bar_state \<Rightarrow> (string \<times> string) list" where
  "fieldSuggestions schema s =
     (if \<not> truthy (activeField s) \<and> length (input_text s) > 0
      then map (\<lambda>f. (f, case map_of schema f of None \<Rightarrow> [] | Some fd \<Rightarrow> label fd))
             (filter (\<lambda>f. includes_str (toLowerCase f) (toLowerCase (input_text s))) (fields schema))
      else [])"

definition opSuggestions :: "Schema \<Rightarrow> bar_state \<Rightarrow> (string \<times> string) list" where
  "opSuggestions schema s =
     (if truthy (activeField s) \<and> \<not> truthy (activeOp s)
      then map (\<lambda>x. (x, x))
             (filter (\<lambda>x. length (input_text s) = 0 \<or> startsWith x (input_text s)) (ops schema s))
      else [])"

definition valueSuggestions :: "Schema \<Rightarrow> string list \<Rightarrow> bar_state \<Rightarrow> (string \<times> string) list" where
  "valueSuggestions schema opts s =
     (if truthy (activeField s) \<and>
         (case field_of schema s of
            None \<Rightarrow> False
          | Some fd \<Rightarrow> ftype fd = FEnum \<or> ftype fd = FRelation \<or> ftype fd = FBoolean)
      then map (\<lambda>x. (x, x)) opts
      else [])"

definition suggestions :: "Schema \<Rightarrow> string list \<Rightarrow> bar_state \<Rightarrow> (string \<times> string) list" where
  "suggestions schema opts s =
     (if truthy (activeField s)
      then (if truthy (activeOp s) then valueSuggestions schema opts s else opSuggestions schema s)
      else fieldSuggestions schema s)"

text \<open>\<^verbatim>\<open>suggestions[menuIndex]?.id || text\<close>: the text when the index is out of range or the id empty.\<close>

definition chosen :: "(string \<times> string) list \<Rightarrow> int \<Rightarrow> string \<Rightarrow> string" where
  "chosen sugg i txt =
     (if 0 \<le> i \<and> i < int (length sugg)
      then (let ident = fst (sugg ! nat i) in if ident \<noteq> [] then ident else txt)
      else txt)"

text \<open>The remainder operator of the language: the sign of the dividend.\<close>

definition js_rem :: "int \<Rightarrow> int \<Rightarrow> int" where
  "js_rem a b = sgn a * (\<bar>a\<bar> mod \<bar>b\<bar>)"

definition on_escape :: "string \<Rightarrow> bar_state \<Rightarrow> bar_state" where
  "on_escape key s = (if key = ''Escape'' then resetDraft s else s)"

definition handleKeyDown :: "Schema \<Rightarrow> string list \<Rightarrow> string \<Rightarrow> bar_state \<Rightarrow> bar_state" where
  "handleKeyDown schema opts key s =
     (let sugg = suggestions schema opts s;
          len = int (length sugg);
          pick = chosen sugg (menuIndex s) (input_text s)
      in if len \<noteq> 0 \<and> (key = ''ArrowDown'' \<or> key = ''ArrowUp'') then
           (let next = (if key = ''ArrowDown'' then menuIndex s + 1 else menuIndex s - 1)
            in s\<lparr>menuIndex := js_rem (next + len) len\<rparr>)
         else if key = ''Enter'' then
           (if \<not> truthy (activeField s) then
              (if pick \<in> set (fields schema)
               then s\<lparr>activeField := Some pick, input_text := [], menuIndex := 0\<rparr>
               else on_escape key s)
            else if \<not> truthy (activeOp s) then
              (if pick \<in> set (ops schema s)
               then s\<lparr>activeOp := Some pick, input_text := [], menuIndex := 0\<rparr>
               else on_escape key s)
            else
              (if length (valueSuggestions schema opts s) \<noteq> 0
               then commitCondition (the (activeField s)) (the (activeOp s)) pick s
               else
                 (let valueToUse =
                        (if trim (input_text s) \<noteq> [] then trim (input_text s) else trim (valueDraft s))
                  in if valueToUse \<noteq> []
                     then commitCondition (the (activeField s)) (the (activeOp s)) valueToUse s
                     else on_escape key s)))
         else on_escape key s)"

text \<open>\<^verbatim>\<open>prev.filter((_, i) => i !== idx)\<close>: the index is any number the caller passes.\<close>

definition removeChip :: "int \<Rightarrow> bar_state \<Rightarrow> bar_state" where
  "removeChip idx s =
     s\<lparr>chips := map snd (filter (\<lambda>(i, c). int i \<noteq> idx) (enumerate 0 (chips s)))\<rparr>"

subsection \<open>The option hook\<close>

text \<open>
  Each run of the effect of \<^verbatim>\<open>useOptions\<close> has its own flag \<^verbatim>\<open>alive\<close>, cleared by the
  cleanup that the framework calls before the next run of the effect. An instance that
  awaits an asynchronous lookup keeps the list its promise will resolve to.
\<close>

record effect_inst =
  alive :: bool
  awaited :: "string list option"

record hook_state =
  shown :: "string list"
  effects :: "effect_inst list"

definition cleanup :: "hook_state \<Rightarrow> hook_state" where
  "cleanup h =
     (if effects h = [] then h
      else h\<lparr>effects := (effects h)[length (effects h) - 1 := (last (effects h))\<lparr>alive := False\<rparr>]\<rparr>)"

text \<open>The effect runs for a new pair of source and query, after the cleanup of the run before.\<close>

definition run_effect :: "OptionSource option \<Rightarrow> string \<Rightarrow> hook_state \<Rightarrow> hook_state" where
  "run_effect src query h0 =
     (let h = cleanup h0
      in case src of
           None \<Rightarrow>
             h\<lparr>shown := [], effects := effects h @ [\<lparr>alive = True, awaited = None\<rparr>]\<rparr>
         | Some (AsyncOptions f) \<Rightarrow>
             h\<lparr>effects := effects h @ [\<lparr>alive = True, awaited = Some (f query)\<rparr>]\<rparr>
         | Some (StaticOptions xs) \<Rightarrow>
             h\<lparr>shown := filter (\<lambda>x. includes_str (toLowerCase x) (toLowerCase query)) xs,
                effects := effects h @ [\<lparr>alive = True, awaited = None\<rparr>]\<rparr>)"

text \<open>The promise awaited by instance \<open>i\<close> resolves: \<^verbatim>\<open>if (alive) setOptions(result)\<close>.\<close>

definition resolve :: "nat \<Rightarrow> hook_state \<Rightarrow> hook_state" where
  "resolve i h =
     (if i < length (effects h) then
        (case awaited (effects h ! i) of
           None \<Rightarrow> h
         | Some result \<Rightarrow>
             (if alive (effects h ! i) then h\<lparr>shown := result\<rparr> else h)
               \<lparr>effects := (effects h)[i := (effects h ! i)\<lparr>awaited := None\<rparr>]\<rparr>)
      else h)"

datatype hook_event = Run "OptionSource option" string | Resolve nat

fun hook_step :: "hook_state \<Rightarrow> hook_event \<Rightarrow> hook_state" where
  "hook_step h (Run src query) = run_effect src query h"
| "hook_step h (Resolve i) = resolve i h"

definition hook_init :: hook_state where
  "hook_init = \<lparr>shown = [], effects = []\<rparr>"

definition hook_run :: "hook_event list \<Rightarrow> hook_state" where
  "hook_run evs = foldl hook_step hook_init evs"

text \<open>All instances of the effect but the latest have had their cleanup called.\<close>

definition stale_dead :: "hook_state \<Rightarrow> bool" where
  "stale_dead h = list_all (\<lambda>e. \<not> alive e) (butlast (effects h))"

subsection \<open>Concrete data of the demo\<close>

text \<open>An engine that reads nothing but the valid dates.\<close>

definition strict_parser :: date_parser where
  "strict_parser s = None"

definition bar_init :: bar_state where
  "bar_init = \<lparr>input_text = [], chips = [], activeField = None, activeOp = None,
               valueDraft = [], menuIndex = 0, showSuggestions = False\<rparr>"

definition age_schema :: Schema where
  "age_schema = [(''age'', \<lparr>label = ''Age'', ftype = FNumber, options = None\<rparr>)]"

text \<open>The asynchronous lookup of the field \<^verbatim>\<open>project\<close> in \<^verbatim>\<open>App.tsx\<close>.\<close>

definition project_lookup :: "string \<Rightarrow> string list" where
  "project_lookup q =
     filter (\<lambda>p. includes_str (toLowerCase p) (toLowerCase q))
       [''Dynamic filtering'', ''Design System'', ''Internal Tools'', ''Marketing Site'']"

definition three_chips :: bar_state where
  "three_chips = bar_init\<lparr>chips := [Condition ''author'' ''='' ''Alice'',
                                    Condition ''age'' ''>'' ''30'',
                                    Condition ''status'' ''='' ''active'']\<rparr>"

section \<open>Properties of the evaluator\<close>

text \<open>
  C5: for every row, the empty and-group evaluates to true and the empty or-group to false.
\<close>

theorem evaluate_empty_group:
  "evaluate dp r (Group And []) = True \<and> evaluate dp r (Group Or []) = False"
  by simp

lemma compare_unknown:
  "operator \<notin> {''contains'', ''='', ''!='', ''>'', ''>='', ''<'', ''<=''} \<Longrightarrow> compare operator left right = False"
  by (simp add: compare_def)

text \<open>
  C7: for every operator outside \<^verbatim>\<open>contains = != > >= < <=\<close> and every pair of operands, \<open>compare\<close>
  returns false, and so does the evaluation of a condition with that operator; both are total
  functions, no branch of which raises.
\<close>

theorem unknown_operator_false:
  assumes "operator \<notin> {''contains'', ''='', ''!='', ''>'', ''>='', ''<'', ''<=''}"
  shows "compare operator left right = False \<and> evaluate dp r (Condition f operator v) = False"
  using assms by (simp add: compare_unknown Let_def)

theorem unknown_operator_false_witness:
  "''~'' \<notin> {''contains'', ''='', ''!='', ''>'', ''>='', ''<'', ''<=''}
   \<and> compare ''~'' (JNum 3) (JStr ''3'') = False
   \<and> evaluate strict_parser [''age'' \<mapsto> JNum 3] (Condition ''age'' ''~'' ''3'') = False"
  using unknown_operator_false [where operator = "''~''" and left = "JNum 3" and right = "JStr ''3''"
      and dp = strict_parser and r = "[''age'' \<mapsto> JNum 3]" and f = "''age''" and v = "''3''"]
  by simp

text \<open>
  C9: \<^verbatim>\<open>!=\<close> is the negation of \<^verbatim>\<open>=\<close>, on every pair of operands and for every condition
  on every row.
\<close>

theorem not_equal_negates_equal:
  "compare ''!='' left right = (\<not> compare ''='' left right)
   \<and> evaluate dp r (Condition f ''!='' v) = (\<not> evaluate dp r (Condition f ''='' v))"
  by (simp add: compare_def Let_def)

text \<open>
  C4: \<open>applyFilter\<close> keeps the rows on which every child of the top-level group evaluates to
  true, whatever the combinator of that group, \<^verbatim>\<open>or\<close> included; a top-level group without
  children keeps every row; \<open>evaluate\<close> itself gives an or-group the any-child meaning and
  an and-group the every-child meaning.
\<close>

theorem applyFilter_every:
  "applyFilter dp rows (Some (Group c children))
     = filter (\<lambda>r. list_all (evaluate dp r) children) rows
   \<and> applyFilter dp rows (Some (Group c [])) = rows
   \<and> evaluate dp r (Group Or children) = list_ex (evaluate dp r) children
   \<and> evaluate dp r (Group And children) = list_all (evaluate dp r) children"
  by (simp add: applyFilter_def list_ex_iff list_all_iff)

theorem applyFilter_every_witness:
  "applyFilter strict_parser [[''status'' \<mapsto> JStr ''active'']]
      (Some (Group Or [Condition ''status'' ''='' ''active'', Condition ''status'' ''='' ''draft''])) = []
   \<and> evaluate strict_parser [''status'' \<mapsto> JStr ''active'']
      (Group Or [Condition ''status'' ''='' ''active'', Condition ''status'' ''='' ''draft''])
   \<and> applyFilter strict_parser [[''status'' \<mapsto> JStr ''active'']]
      (Some (Group And [Condition ''status'' ''='' ''active'', Condition ''status'' ''='' ''draft''])) = []
   \<and> applyFilter strict_parser [[''status'' \<mapsto> JStr ''active'']]
      (Some (Group And [Condition ''status'' ''='' ''active''])) = [[''status'' \<mapsto> JStr ''active'']]"
  using applyFilter_every [where dp = strict_parser and rows = "[[''status'' \<mapsto> JStr ''active'']]"
      and c = Or
      and children = "[Condition ''status'' ''='' ''active'', Condition ''status'' ''='' ''draft'']"
      and r = "[''status'' \<mapsto> JStr ''active'']"]
    applyFilter_every [where dp = strict_parser and rows = "[[''status'' \<mapsto> JStr ''active'']]"
      and c = And
      and children = "[Condition ''status'' ''='' ''active'', Condition ''status'' ''='' ''draft'']"
      and r = "[''status'' \<mapsto> JStr ''active'']"]
    applyFilter_every [where dp = strict_parser and rows = "[[''status'' \<mapsto> JStr ''active'']]"
      and c = And
      and children = "[Condition ''status'' ''='' ''active'']"
      and r = "[''status'' \<mapsto> JStr ''active'']"]
  by (simp add: compare_def get_field_def date_shape_def)

lemma IsLessThan_NaN: "x = NaN \<or> y = NaN \<Longrightarrow> IsLessThan x y = None"
  by (cases x; cases y) auto

lemma int_string_30: "int_string 30 = ''30''"
  by code_simp

lemma StringToNumber_abc: "StringToNumber ''abc'' = NaN"
  by code_simp

text \<open>
  C6: under each of \<^verbatim>\<open>> >= < <=\<close> a comparison with an operand whose numeric coercion is
  \<^verbatim>\<open>NaN\<close> is false; in particular the condition \<^verbatim>\<open>age <op> abc\<close> is false on the row
  \<^verbatim>\<open>{age: 30}\<close>.
\<close>

theorem relational_nan_false:
  assumes "operator \<in> {''>'', ''>='', ''<'', ''<=''}"
  shows "(ToNumber left = NaN \<or> ToNumber right = NaN \<longrightarrow> compare operator left right = False)
         \<and> evaluate dp [''age'' \<mapsto> JNum 30] (Condition ''age'' operator ''abc'') = False"
proof -
  have nan: "compare operator l r = False" if "ToNumber l = NaN \<or> ToNumber r = NaN" for l r
  proof -
    have "IsLessThan (ToNumber l) (ToNumber r) = None" "IsLessThan (ToNumber r) (ToNumber l) = None"
      using that by (auto simp: IsLessThan_NaN)
    then show ?thesis
      using assms by (auto simp: compare_def num_gt_def num_ge_def num_lt_def num_le_def)
  qed
  have "\<not> date_shape (ToString (JNum 30))"
    by (simp add: int_string_30 date_shape_def)
  then have "evaluate dp [''age'' \<mapsto> JNum 30] (Condition ''age'' operator ''abc'')
             = compare operator (JNum 30) (JStr ''abc'')"
    by (simp add: get_field_def)
  moreover have "compare operator (JNum 30) (JStr ''abc'') = False"
    by (rule nan) (simp add: StringToNumber_abc)
  ultimately show ?thesis using nan by blast
qed

theorem relational_nan_false_witness:
  "''>'' \<in> {''>'', ''>='', ''<'', ''<=''} \<and> ToNumber (JStr ''abc'') = NaN
   \<and> compare ''>'' (JNum 30) (JStr ''abc'') = False
   \<and> evaluate strict_parser [''age'' \<mapsto> JNum 30] (Condition ''age'' ''>'' ''abc'') = False"
  using relational_nan_false [where operator = "''>''" and left = "JNum 30" and right = "JStr ''abc''"
      and dp = strict_parser]
  by (simp add: StringToNumber_abc)

subsection \<open>The date heuristic\<close>

text \<open>
  Only a string has a string coercion of the shape \<^verbatim>\<open>YYYY-MM-DD\<close>: the decimal form of an
  integer has no hyphen after its first place. The decimal form of an integer determines it
  and is never \<^verbatim>\<open>NaN\<close>, so that \<^verbatim>\<open>=\<close> on two time values is their equality.
\<close>

lemma is_digit_digit_char: "d < 10 \<Longrightarrow> is_digit (digit_char d)"
  by (simp add: is_digit_def digit_char_def)

lemma digit_val_digit_char: "d < 10 \<Longrightarrow> digit_val (digit_char d) = Some d"
  by (simp add: digit_val_def digit_char_def)

lemma nat_digits_all_digits: "list_all is_digit (nat_digits n)"
proof (induction n rule: nat_digits.induct)
  case (1 n)
  show ?case
  proof (cases "n < 10")
    case True
    then show ?thesis by (simp add: nat_digits.simps [of n] is_digit_digit_char)
  next
    case False
    then show ?thesis
      using "1.IH" by (simp add: nat_digits.simps [of n] is_digit_digit_char)
  qed
qed

lemma nat_digits_nonempty: "nat_digits n \<noteq> []"
  by (subst nat_digits.simps) simp

lemma radix_digits_append:
  "radix_digits b acc (xs @ ys) =
     (case radix_digits b acc xs of None \<Rightarrow> None | Some a \<Rightarrow> radix_digits b a ys)"
  by (induction xs arbitrary: acc) (auto split: option.splits)

lemma radix_digits_nat_digits: "radix_digits 10 0 (nat_digits n) = Some n"
proof (induction n rule: nat_digits.induct)
  case (1 n)
  show ?case
  proof (cases "n < 10")
    case True
    then show ?thesis by (simp add: nat_digits.simps [of n] digit_val_digit_char)
  next
    case False
    then have "radix_digits 10 0 (nat_digits (n div 10)) = Some (n div 10)"
      using "1.IH" by simp
    with False show ?thesis
      by (simp add: nat_digits.simps [of n] radix_digits_append digit_val_digit_char)
  qed
qed

lemma nat_digits_inj:
  assumes "nat_digits m = nat_digits n"
  shows "m = n"
proof -
  have "Some m = radix_digits 10 0 (nat_digits m)"
    by (simp only: radix_digits_nat_digits)
  also have "\<dots> = radix_digits 10 0 (nat_digits n)"
    by (simp only: assms)
  also have "\<dots> = Some n"
    by (simp only: radix_digits_nat_digits)
  finally show ?thesis by simp
qed

lemma minus_not_digit: "\<not> is_digit CHR ''-''"
  by (simp add: is_digit_def)

lemma nat_digits_no_minus: "nat_digits n \<noteq> CHR ''-'' # t"
proof
  assume "nat_digits n = CHR ''-'' # t"
  then have "list_all is_digit (CHR ''-'' # t)"
    using nat_digits_all_digits [of n] by simp
  then show False by (simp add: minus_not_digit)
qed

lemma int_string_inj: "int_string a = int_string b \<Longrightarrow> a = b"
proof -
  assume eq: "int_string a = int_string b"
  show ?thesis
  proof (cases "a < 0"; cases "b < 0")
    assume "a < 0" "b < 0"
    with eq have "nat (- a) = nat (- b)"
      by (auto simp: int_string_def dest: nat_digits_inj)
    with \<open>a < 0\<close> \<open>b < 0\<close> show ?thesis by simp
  next
    assume "a < 0" "\<not> b < 0"
    with eq show ?thesis
      using nat_digits_no_minus [of "nat b" "nat_digits (nat (- a))"] by (simp add: int_string_def)
  next
    assume "\<not> a < 0" "b < 0"
    with eq show ?thesis
      using nat_digits_no_minus [of "nat a" "nat_digits (nat (- b))"] by (simp add: int_string_def)
  next
    assume "\<not> a < 0" "\<not> b < 0"
    with eq have "nat a = nat b"
      by (auto simp: int_string_def dest: nat_digits_inj)
    with \<open>\<not> a < 0\<close> \<open>\<not> b < 0\<close> show ?thesis by simp
  qed
qed

lemma date_shape_parts:
  "date_shape s \<Longrightarrow> length s = 10 \<and> is_digit (s ! 0) \<and> s ! 4 = CHR ''-''"
  by (auto simp: date_shape_def split: list.splits)

lemma int_string_not_date: "\<not> date_shape (int_string i)"
proof
  assume d: "date_shape (int_string i)"
  then have p: "length (int_string i) = 10" "is_digit (int_string i ! 0)" "int_string i ! 4 = CHR ''-''"
    using date_shape_parts by blast+
  show False
  proof (cases "i < 0")
    case True
    with p(2) show False by (simp add: int_string_def minus_not_digit)
  next
    case False
    then have "list_all is_digit (int_string i)"
      by (simp add: int_string_def nat_digits_all_digits)
    then have "is_digit (int_string i ! 4)"
      using p(1) by (simp add: list_all_length)
    with p(3) show False by (simp add: minus_not_digit)
  qed
qed

lemma date_shape_ToString:
  assumes "date_shape (ToString v)"
  shows "\<exists>s. v = JStr s"
proof (cases v)
  case (JBool b)
  with assms show ?thesis by (cases b) (simp_all add: date_shape_def)
next
  case (JNum i)
  with assms show ?thesis by (simp add: int_string_not_date)
qed (use assms in \<open>simp_all add: date_shape_def\<close>)


lemma int_string_not_NaN: "int_string i \<noteq> ''NaN''"
proof (cases "i < 0")
  case True
  then show ?thesis by (simp add: int_string_def)
next
  case False
  have "\<not> list_all is_digit ''NaN''"
    by (simp add: is_digit_def)
  then show ?thesis
    using False nat_digits_all_digits [of "nat i"] by (auto simp: int_string_def)
qed

lemma parse_date_cases: "parse_date dp s = JNaN \<or> (\<exists>t. parse_date dp s = JNum t)"
  by (simp add: parse_date_def Let_def split: option.splits)

lemma compare_epochs:
  assumes "a = JNaN \<or> (\<exists>x. a = JNum x)" and "b = JNaN \<or> (\<exists>y. b = JNum y)"
  shows "compare ''>'' a b = on_epochs (\<lambda>x y. x > y) a b"
    and "compare ''>='' a b = on_epochs (\<lambda>x y. x \<ge> y) a b"
    and "compare ''<'' a b = on_epochs (\<lambda>x y. x < y) a b"
    and "compare ''<='' a b = on_epochs (\<lambda>x y. x \<le> y) a b"
    and "compare ''='' a b = (a = b)"
    and "compare ''!='' a b = (a \<noteq> b)"
proof -
  have nn: "int_string i \<noteq> ''NaN''" "''NaN'' \<noteq> int_string i" for i
    using int_string_not_NaN [of i] by auto
  show "compare ''>'' a b = on_epochs (\<lambda>x y. x > y) a b"
    and "compare ''>='' a b = on_epochs (\<lambda>x y. x \<ge> y) a b"
    and "compare ''<'' a b = on_epochs (\<lambda>x y. x < y) a b"
    and "compare ''<='' a b = on_epochs (\<lambda>x y. x \<le> y) a b"
    and "compare ''='' a b = (a = b)"
    and "compare ''!='' a b = (a \<noteq> b)"
    using assms
    by (auto simp: compare_def on_epochs_def num_gt_def num_ge_def num_lt_def num_le_def nn
             dest: int_string_inj)
qed

lemma parse_2025_03_01: "parse_date dp ''2025-03-01'' = JNum 1740787200000"
  by code_simp

lemma parse_2025_02_01: "parse_date dp ''2025-02-01'' = JNum 1738368000000"
  by code_simp

lemma parse_1970_01_02: "parse_date dp ''1970-01-02'' = JNum 86400000"
  by code_simp

lemma parse_1970_01_01: "parse_date dp ''1970-01-01'' = JNum 0"
  by code_simp

lemma parse_2025_13_01: "parse_date strict_parser ''2025-13-01'' = JNaN"
  by code_simp

lemma parse_2025_14_01: "parse_date strict_parser ''2025-14-01'' = JNaN"
  by code_simp

lemma shape_2025_03_01: "date_shape ''2025-03-01''"
  by code_simp

lemma shape_2025_02_01: "date_shape ''2025-02-01''"
  by code_simp

lemma shape_1970_01_02: "date_shape ''1970-01-02''"
  by code_simp

lemma shape_1970_01_01: "date_shape ''1970-01-01''"
  by code_simp

lemma shape_2025_13_01: "date_shape ''2025-13-01''"
  by code_simp

lemma shape_2025_14_01: "date_shape ''2025-14-01''"
  by code_simp

lemma digit_chars:
  "digit_char 0 = CHR ''0''" "digit_char 1 = CHR ''1''" "digit_char 2 = CHR ''2''"
  "digit_char 3 = CHR ''3''" "digit_char 4 = CHR ''4''" "digit_char 5 = CHR ''5''"
  "digit_char 6 = CHR ''6''" "digit_char 7 = CHR ''7''" "digit_char 8 = CHR ''8''"
  "digit_char 9 = CHR ''9''"
  by code_simp+

lemma string_86400000: "int_string 86400000 = ''86400000''"
  by (simp add: int_string_def nat_digits.simps digit_chars)

lemma string_0: "int_string 0 = ''0''"
  by (simp add: int_string_def nat_digits.simps digit_chars)

text \<open>
  C3 (as amended): when the string coercion of the row's field and the condition's value both
  have the shape \<^verbatim>\<open>YYYY-MM-DD\<close>, the field holds a string of that shape and the condition
  is evaluated by \<open>compare\<close> on the time values \<open>a\<close> and \<open>b\<close> of the two dates, whatever
  the engine's date parser; the evaluator takes no schema, so the declared type of the field
  plays no part. Under \<^verbatim>\<open>> >= < <=\<close> the two time values are compared as numbers, and the
  result is false when either date is invalid. Under \<^verbatim>\<open>=\<close> and \<^verbatim>\<open>!=\<close> their decimal strings
  are compared: the result is the equality of the two time values, two invalid dates counting as
  equal. Under \<^verbatim>\<open>contains\<close> the decimal string of \<open>b\<close> is looked for in that of \<open>a\<close>.
\<close>

theorem date_shape_heuristic:
  assumes "date_shape (ToString (get_field r f))" and "date_shape v"
  shows "\<exists>s. r f = Some (JStr s) \<and> date_shape s
           \<and> evaluate dp r (Condition f operator v)
               = compare operator (parse_date dp s) (parse_date dp v)
           \<and> evaluate dp r (Condition f ''>'' v)
               = on_epochs (\<lambda>x y. x > y) (parse_date dp s) (parse_date dp v)
           \<and> evaluate dp r (Condition f ''>='' v)
               = on_epochs (\<lambda>x y. x \<ge> y) (parse_date dp s) (parse_date dp v)
           \<and> evaluate dp r (Condition f ''<'' v)
               = on_epochs (\<lambda>x y. x < y) (parse_date dp s) (parse_date dp v)
           \<and> evaluate dp r (Condition f ''<='' v)
               = on_epochs (\<lambda>x y. x \<le> y) (parse_date dp s) (parse_date dp v)
           \<and> evaluate dp r (Condition f ''='' v) = (parse_date dp s = parse_date dp v)
           \<and> evaluate dp r (Condition f ''!='' v) = (parse_date dp s \<noteq> parse_date dp v)
           \<and> evaluate dp r (Condition f ''contains'' v)
               = includes_str (toLowerCase (ToString (parse_date dp s)))
                   (toLowerCase (ToString (parse_date dp v)))"
proof -
  from assms(1) obtain s where s: "get_field r f = JStr s"
    using date_shape_ToString by blast
  then have rf: "r f = Some (JStr s)"
    by (auto simp: get_field_def split: option.splits)
  from s assms(1) have sh: "date_shape s" by simp
  have ev: "evaluate dp r (Condition f operator' v)
            = compare operator' (parse_date dp s) (parse_date dp v)" for operator'
    using s sh assms(2) by simp
  note ce = compare_epochs [OF parse_date_cases [of dp s] parse_date_cases [of dp v]]
  have co: "compare ''contains'' a b = includes_str (toLowerCase (ToString a)) (toLowerCase (ToString b))"
    for a b
    by (simp add: compare_def)
  show ?thesis
  proof (intro exI [of _ s] conjI)
    show "r f = Some (JStr s)" by (rule rf)
    show "date_shape s" by (rule sh)
    show "evaluate dp r (Condition f operator v)
          = compare operator (parse_date dp s) (parse_date dp v)"
      by (rule ev)
    show "evaluate dp r (Condition f ''>'' v)
          = on_epochs (\<lambda>x y. x > y) (parse_date dp s) (parse_date dp v)"
      unfolding ev by (rule ce(1))
    show "evaluate dp r (Condition f ''>='' v)
          = on_epochs (\<lambda>x y. x \<ge> y) (parse_date dp s) (parse_date dp v)"
      unfolding ev by (rule ce(2))
    show "evaluate dp r (Condition f ''<'' v)
          = on_epochs (\<lambda>x y. x < y) (parse_date dp s) (parse_date dp v)"
      unfolding ev by (rule ce(3))
    show "evaluate dp r (Condition f ''<='' v)
          = on_epochs (\<lambda>x y. x \<le> y) (parse_date dp s) (parse_date dp v)"
      unfolding ev by (rule ce(4))
    show "evaluate dp r (Condition f ''='' v) = (parse_date dp s = parse_date dp v)"
      unfolding ev by (rule ce(5))
    show "evaluate dp r (Condition f ''!='' v) = (parse_date dp s \<noteq> parse_date dp v)"
      unfolding ev by (rule ce(6))
    show "evaluate dp r (Condition f ''contains'' v)
          = includes_str (toLowerCase (ToString (parse_date dp s)))
              (toLowerCase (ToString (parse_date dp v)))"
      unfolding ev by (rule co)
  qed
qed

theorem date_shape_heuristic_witness:
  "date_shape (ToString (get_field [''x'' \<mapsto> JStr ''2025-03-01''] ''x''))
   \<and> date_shape ''2025-02-01''
   \<and> evaluate strict_parser [''x'' \<mapsto> JStr ''2025-03-01''] (Condition ''x'' ''>'' ''2025-02-01'')
   \<and> \<not> evaluate strict_parser [''x'' \<mapsto> JStr ''2025-03-01''] (Condition ''x'' ''<='' ''2025-02-01'')
   \<and> \<not> evaluate strict_parser [''x'' \<mapsto> JStr ''2025-03-01''] (Condition ''x'' ''='' ''2025-02-01'')"
  using date_shape_heuristic [where r = "[''x'' \<mapsto> JStr ''2025-03-01'']" and f = "''x''"
      and v = "''2025-02-01''" and operator = "''>''" and dp = strict_parser]
  by (simp add: get_field_def shape_2025_03_01 shape_2025_02_01 parse_2025_03_01 parse_2025_02_01
        on_epochs_def)

text \<open>
  C3 as stated, a numeric comparison of the two time values under every operator, fails.
  With an engine that gives \<^verbatim>\<open>NaN\<close> for a month 13 or 14, two different invalid dates are
  equal under \<^verbatim>\<open>=\<close> while neither \<^verbatim>\<open>>=\<close> nor \<^verbatim>\<open><=\<close> holds of them; and with any engine
  the second of January 1970 contains the first, the string of 86400000 containing that of 0.
\<close>

theorem date_shape_numeric_counterexample:
  "date_shape ''2025-13-01'' \<and> date_shape ''2025-14-01''
   \<and> getTime strict_parser (JStr ''2025-13-01'') = JNaN
   \<and> getTime strict_parser (JStr ''2025-14-01'') = JNaN
   \<and> ToNumber JNaN = NaN
   \<and> evaluate strict_parser [''x'' \<mapsto> JStr ''2025-13-01''] (Condition ''x'' ''='' ''2025-14-01'')
   \<and> \<not> evaluate strict_parser [''x'' \<mapsto> JStr ''2025-13-01''] (Condition ''x'' ''!='' ''2025-14-01'')
   \<and> \<not> evaluate strict_parser [''x'' \<mapsto> JStr ''2025-13-01''] (Condition ''x'' ''>='' ''2025-14-01'')
   \<and> \<not> evaluate strict_parser [''x'' \<mapsto> JStr ''2025-13-01''] (Condition ''x'' ''<='' ''2025-14-01'')
   \<and> getTime strict_parser (JStr ''1970-01-02'') = JNum 86400000
   \<and> getTime strict_parser (JStr ''1970-01-01'') = JNum 0
   \<and> evaluate strict_parser [''x'' \<mapsto> JStr ''1970-01-02''] (Condition ''x'' ''contains'' ''1970-01-01'')"
  by (simp add: get_field_def shape_2025_13_01 shape_2025_14_01 parse_2025_13_01 parse_2025_14_01
        shape_1970_01_02 shape_1970_01_01 parse_1970_01_02 parse_1970_01_01 compare_def
        string_86400000 string_0 toLowerCase_def lower_char_def num_ge_def num_le_def)

section \<open>Properties of the search bar\<close>

text \<open>
  C8: the allowed operators of each field type are exactly those of the table.
\<close>

theorem getOps_table:
  "getOps FString = [''contains'', ''='', ''!='']
   \<and> getOps FNumber = [''='', ''!='', ''>'', ''>='', ''<'', ''<='']
   \<and> getOps FDate = [''='', ''!='', ''>'', ''>='', ''<'', ''<='']
   \<and> getOps FEnum = [''='', ''!='']
   \<and> getOps FRelation = [''='', ''!='']
   \<and> getOps FBoolean = [''='', ''!='']"
  by (simp add: STRING_OPS_def NUMBER_OPS_def DATE_OPS_def ENUM_OPS_def BOOL_OPS_def)

lemma filter_enumerate_neq:
  "map snd (filter (\<lambda>(i, c). int i \<noteq> idx) (enumerate n xs)) =
     (if int n \<le> idx \<and> idx < int n + int (length xs)
      then take (nat idx - n) xs @ drop (Suc (nat idx - n)) xs else xs)"
proof (induction xs arbitrary: n)
  case Nil
  then show ?case by simp
next
  case (Cons x xs)
  show ?case
  proof (cases "int n = idx")
    case True
    then have "map snd (filter (\<lambda>(i, c). int i \<noteq> idx) (enumerate (Suc n) xs)) = xs"
      using Cons.IH [of "Suc n"] by simp
    with True show ?thesis by auto
  next
    case False
    show ?thesis
    proof (cases "int n < idx \<and> idx < int n + int (length (x # xs))")
      case True
      then have k: "nat idx - n = Suc (nat idx - Suc n)" by linarith
      from True have "int (Suc n) \<le> idx \<and> idx < int (Suc n) + int (length xs)" by simp
      then have "map snd (filter (\<lambda>(i, c). int i \<noteq> idx) (enumerate (Suc n) xs))
                 = take (nat idx - Suc n) xs @ drop (Suc (nat idx - Suc n)) xs"
        using Cons.IH [of "Suc n"] by (auto split: if_splits)
      with True False show ?thesis by (simp add: k)
    next
      case out: False
      with False have "\<not> (int (Suc n) \<le> idx \<and> idx < int (Suc n) + int (length xs))" by auto
      then have "map snd (filter (\<lambda>(i, c). int i \<noteq> idx) (enumerate (Suc n) xs)) = xs"
        using Cons.IH [of "Suc n"] by (auto split: if_splits)
      with out False show ?thesis by auto
    qed
  qed
qed

text \<open>
  C1 (as amended): \<open>removeChip\<close> never fails. For an index within \<open>[0, length)\<close> it removes the
  chip at that index and keeps the others in order; for any other index it leaves the chips as
  they are. The tree published afterwards is the and-group of the remaining chips, or
  \<^verbatim>\<open>null\<close> when none remains.
\<close>

theorem removeChip_total:
  "chips (removeChip idx s) =
     (if 0 \<le> idx \<and> idx < int (length (chips s))
      then take (nat idx) (chips s) @ drop (Suc (nat idx)) (chips s)
      else chips s)
   \<and> published (removeChip idx s) =
     (if chips (removeChip idx s) = [] then None else Some (Group And (chips (removeChip idx s))))"
  using filter_enumerate_neq [of idx 0 "chips s"]
  by (simp add: removeChip_def published_def)

theorem removeChip_total_witness:
  "chips (removeChip 1 three_chips)
     = [Condition ''author'' ''='' ''Alice'', Condition ''status'' ''='' ''active'']
   \<and> chips (removeChip 3 three_chips) = chips three_chips
   \<and> published (removeChip 1 three_chips)
     = Some (Group And [Condition ''author'' ''='' ''Alice'', Condition ''status'' ''='' ''active''])"
  using removeChip_total [of 1 three_chips] removeChip_total [of 3 three_chips]
  by (simp add: three_chips_def bar_init_def)

text \<open>
  C1 as stated fails: with one chip, the indices 5 and -1 are out of range, and the call
  returns the state unchanged instead of failing.
\<close>

theorem removeChip_out_of_range_counterexample:
  "removeChip 5 (bar_init\<lparr>chips := [Condition ''status'' ''='' ''active'']\<rparr>)
     = bar_init\<lparr>chips := [Condition ''status'' ''='' ''active'']\<rparr>
   \<and> removeChip (- 1) (bar_init\<lparr>chips := [Condition ''status'' ''='' ''active'']\<rparr>)
     = bar_init\<lparr>chips := [Condition ''status'' ''='' ''active'']\<rparr>"
  by (simp add: removeChip_def bar_init_def)

text \<open>
  C2 (as amended): \<open>commitCondition\<close> never fails: whatever the operator and the value, it appends
  the condition made of its three arguments. The allowed operators are enforced where the
  operator is chosen: with a field active and no operator yet, Enter makes the highlighted
  or typed operator the active one when it is in \<open>getOps\<close> of the field's type, and
  otherwise leaves the state as it is.
\<close>

theorem commitCondition_never_fails:
  "chips (commitCondition f operator v s) = chips s @ [Condition f operator v]
   \<and> (field_of schema s = Some fd \<and> \<not> truthy (activeOp s) \<longrightarrow>
        handleKeyDown schema opts ''Enter'' s =
          (let pick = chosen (suggestions schema opts s) (menuIndex s) (input_text s)
           in if pick \<in> set (getOps (ftype fd))
              then s\<lparr>activeOp := Some pick, input_text := [], menuIndex := 0\<rparr>
              else s))"
proof -
  have "chips (commitCondition f operator v s) = chips s @ [Condition f operator v]"
    by (simp add: commitCondition_def resetDraft_def)
  moreover have "handleKeyDown schema opts ''Enter'' s =
          (let pick = chosen (suggestions schema opts s) (menuIndex s) (input_text s)
           in if pick \<in> set (getOps (ftype fd))
              then s\<lparr>activeOp := Some pick, input_text := [], menuIndex := 0\<rparr>
              else s)"
    if fd: "field_of schema s = Some fd" and op: "\<not> truthy (activeOp s)"
  proof -
    from fd have af: "truthy (activeField s)"
      by (auto simp: field_of_def truthy_def split: option.splits if_splits)
    from fd have o: "ops schema s = getOps (ftype fd)"
      by (simp add: ops_def)
    show ?thesis
      using af op by (simp add: handleKeyDown_def Let_def o on_escape_def)
  qed
  ultimately show ?thesis by blast
qed

theorem commitCondition_never_fails_witness:
  "field_of age_schema (bar_init\<lparr>activeField := Some ''age'', input_text := ''contains''\<rparr>)
     = Some \<lparr>label = ''Age'', ftype = FNumber, options = None\<rparr>
   \<and> \<not> truthy (activeOp (bar_init\<lparr>activeField := Some ''age'', input_text := ''contains''\<rparr>))
   \<and> handleKeyDown age_schema [] ''Enter'' (bar_init\<lparr>activeField := Some ''age'', input_text := ''contains''\<rparr>)
     = bar_init\<lparr>activeField := Some ''age'', input_text := ''contains''\<rparr>
   \<and> handleKeyDown age_schema [] ''Enter'' (bar_init\<lparr>activeField := Some ''age'', input_text := ''>=''\<rparr>)
     = bar_init\<lparr>activeField := Some ''age'', activeOp := Some ''>=''\<rparr>"
  using commitCondition_never_fails [of "''age''" "''contains''" "''x''"
      "bar_init\<lparr>activeField := Some ''age'', input_text := ''contains''\<rparr>" age_schema
      "\<lparr>label = ''Age'', ftype = FNumber, options = None\<rparr>" "[]"]
    commitCondition_never_fails [of "''age''" "''>=''" "''x''"
      "bar_init\<lparr>activeField := Some ''age'', input_text := ''>=''\<rparr>" age_schema
      "\<lparr>label = ''Age'', ftype = FNumber, options = None\<rparr>" "[]"]
  by (simp add: field_of_def age_schema_def bar_init_def truthy_def chosen_def suggestions_def
        opSuggestions_def ops_def NUMBER_OPS_def)

text \<open>
  C2 as stated fails: \<^verbatim>\<open>contains\<close> is not allowed for a number field, and the condition
  is built all the same.
\<close>

theorem commitCondition_invalid_operator_counterexample:
  "''contains'' \<notin> set (getOps FNumber)
   \<and> chips (commitCondition ''age'' ''contains'' ''abc'' (bar_init\<lparr>activeField := Some ''age'', activeOp := Some ''contains''\<rparr>))
     = [Condition ''age'' ''contains'' ''abc'']"
  by (simp add: NUMBER_OPS_def commitCondition_def resetDraft_def bar_init_def)

lemma cleanup_all_dead: "stale_dead h \<Longrightarrow> list_all (\<lambda>e. \<not> alive e) (effects (cleanup h))"
proof (cases "effects h" rule: rev_cases)
  case Nil
  then show ?thesis by (simp add: cleanup_def)
next
  case (snoc xs x)
  assume "stale_dead h"
  with snoc show ?thesis by (simp add: cleanup_def stale_dead_def)
qed

lemma run_effect_stale_dead: "stale_dead h \<Longrightarrow> stale_dead (run_effect src q h)"
  using cleanup_all_dead [of h]
  by (auto simp: run_effect_def stale_dead_def Let_def split: option.splits OptionSource.splits)

lemma resolve_alive: "map alive (effects (resolve i h)) = map alive (effects h)"
  by (auto simp: resolve_def map_update list_update_same_conv split: option.splits)

lemma stale_dead_alt: "stale_dead h = list_all (\<lambda>b. \<not> b) (butlast (map alive (effects h)))"
  by (simp add: stale_dead_def map_butlast [symmetric] list_all_iff)

lemma resolve_stale_dead: "stale_dead h \<Longrightarrow> stale_dead (resolve i h)"
  by (simp add: stale_dead_alt resolve_alive)

lemma foldl_stale_dead: "stale_dead h \<Longrightarrow> stale_dead (foldl hook_step h evs)"
proof (induction evs arbitrary: h)
  case Nil
  then show ?case by simp
next
  case (Cons e evs)
  have "stale_dead (hook_step h e)"
    using Cons.prems by (cases e) (simp_all add: run_effect_stale_dead resolve_stale_dead)
  then show ?case using Cons.IH by simp
qed

lemma hook_run_stale_dead: "stale_dead (hook_run evs)"
  unfolding hook_run_def by (rule foldl_stale_dead) (simp add: stale_dead_def hook_init_def)

lemma resolve_stale_shown:
  assumes "stale_dead h" and "Suc i < length (effects h)"
  shows "shown (resolve i h) = shown h"
proof -
  have "effects h ! i = butlast (effects h) ! i"
    using assms(2) by (simp add: nth_butlast)
  moreover have "i < length (butlast (effects h))" using assms(2) by simp
  ultimately have "\<not> alive (effects h ! i)"
    using assms(1) by (simp add: stale_dead_def list_all_length)
  then show ?thesis
    by (simp add: resolve_def split: option.splits)
qed

lemma effects_cleanup: "length (effects (cleanup h)) = length (effects h)"
  by (simp add: cleanup_def)

lemma project_lookup_a:
  "project_lookup ''a'' = [''Dynamic filtering'', ''Internal Tools'', ''Marketing Site'']"
  by code_simp

lemma project_lookup_al: "project_lookup ''al'' = [''Internal Tools'']"
  by code_simp

text \<open>
  C10: a lookup for \<open>q1\<close> is issued, then one for \<open>q2\<close>; the second resolves and is
  applied, then the first resolves: the options shown are those of \<open>q2\<close>. More generally,
  after any sequence of effect runs and resolutions, the resolution of an instance that is
  not the latest leaves the options as they are.
\<close>

theorem stale_result_never_applied:
  "shown (resolve (length (effects h)) (resolve (Suc (length (effects h)))
       (run_effect (Some (AsyncOptions f)) q2 (run_effect (Some (AsyncOptions f)) q1 h)))) = f q2
   \<and> (Suc i < length (effects (hook_run evs)) \<longrightarrow>
        shown (resolve i (hook_run evs)) = shown (hook_run evs))"
proof -
  let ?n = "length (effects h)"
  define h1 where "h1 = run_effect (Some (AsyncOptions f)) q1 h"
  define h2 where "h2 = run_effect (Some (AsyncOptions f)) q2 h1"
  have l1: "length (effects h1) = Suc ?n"
    by (simp add: h1_def run_effect_def Let_def effects_cleanup)
  have e1: "effects h1 = effects (cleanup h) @ [\<lparr>alive = True, awaited = Some (f q1)\<rparr>]"
    by (simp add: h1_def run_effect_def Let_def)
  have c2: "effects (cleanup h1) = effects (cleanup h) @ [\<lparr>alive = False, awaited = Some (f q1)\<rparr>]"
    by (simp add: cleanup_def e1 effects_cleanup)
  have e2: "effects h2 = effects (cleanup h) @ [\<lparr>alive = False, awaited = Some (f q1)\<rparr>,
                                               \<lparr>alive = True, awaited = Some (f q2)\<rparr>]"
    by (simp add: h2_def run_effect_def Let_def c2)
  define h3 where "h3 = resolve (Suc ?n) h2"
  have s3: "shown h3 = f q2"
    by (simp add: h3_def resolve_def e2 effects_cleanup nth_append)
  have e3: "effects h3 = effects (cleanup h) @ [\<lparr>alive = False, awaited = Some (f q1)\<rparr>,
                                               \<lparr>alive = True, awaited = None\<rparr>]"
    by (simp add: h3_def resolve_def e2 effects_cleanup nth_append list_update_append)
  have "shown (resolve ?n h3) = f q2"
    by (simp add: resolve_def e3 effects_cleanup nth_append s3)
  then have "shown (resolve ?n (resolve (Suc ?n)
       (run_effect (Some (AsyncOptions f)) q2 (run_effect (Some (AsyncOptions f)) q1 h)))) = f q2"
    by (simp add: h3_def h2_def h1_def)
  then show ?thesis
    using resolve_stale_shown [OF hook_run_stale_dead, of i evs] by blast
qed

theorem stale_result_never_applied_witness:
  "Suc 0 < length (effects (hook_run [Run (Some (AsyncOptions project_lookup)) ''a'',
                                       Run (Some (AsyncOptions project_lookup)) ''al'',
                                       Resolve 1]))
   \<and> shown (hook_run [Run (Some (AsyncOptions project_lookup)) ''a'',
                       Run (Some (AsyncOptions project_lookup)) ''al'',
                       Resolve 1, Resolve 0]) = [''Internal Tools'']
   \<and> project_lookup ''a'' \<noteq> [''Internal Tools'']"
  using stale_result_never_applied [where h = hook_init and f = project_lookup
      and ?q1.0 = "''a''" and ?q2.0 = "''al''" and i = 0
      and evs = "[Run (Some (AsyncOptions project_lookup)) ''a'',
                  Run (Some (AsyncOptions project_lookup)) ''al'', Resolve 1]"]
  by (simp add: hook_run_def hook_init_def run_effect_def cleanup_def resolve_def
        project_lookup_a project_lookup_al)

end
